theory Spec2Isabelle
  imports Main
begin

section \<open>The Jenkins agent lifecycle helper (jenkins_agent.py)\<close>

text \<open>
  A shallow embedding of \<^verbatim>\<open>jenkins_agent.py\<close>. The program is sequential glue around HTTP
  calls, so the embedding makes every effect explicit:
  \<^item> every exception the code can raise is a value of \<open>error\<close>, and a function that can
    raise returns \<open>error + 'a\<close> (\<open>Inl\<close> is the raise);
  \<^item> the requests sent, the log records written and the shell commands run are appended
    to a \<open>world\<close> record that is threaded through every function, and is kept when an
    exception propagates;
  \<^item> what lies outside the program (the servers that answer, the file system, and the
    library parsers for JSON, XML and URL encoding) is a parameter, the record \<open>env\<close>.
  A Python \<^verbatim>\<open>str\<close> is represented by its UTF-8 encoding as a \<open>string\<close>. The characters the
  program strips and splits on (\<^verbatim>\<open>/\<close> and \<^verbatim>\<open>:\<close>) are single bytes that never occur
  inside a multi-byte sequence, so stripping, splitting, concatenation and equality on the
  encoding agree with the same operations on code points. A value that is \<^verbatim>\<open>None\<close> or a
  \<^verbatim>\<open>str\<close> is a \<open>string option\<close>.
\<close>

subsection \<open>Exceptions\<close>

datatype error =
    HTTPError int
  | ConnectionError
  | UnicodeDecodeError
  | JSONDecodeError
  | ParseError
  | AttributeError
  | TypeError
  | ValueError

subsection \<open>Values of the libraries\<close>

text \<open>
  What \<^verbatim>\<open>json\<close> parses to. A dictionary is the list of its items, each key once. A number
  only matters here as a value that is neither a dictionary, nor iterable, nor equal to a
  string, so integers stand for all numbers.
\<close>

datatype json =
    JNull
  | JBool bool
  | JNumber int
  | JString string
  | JList "json list"
  | JDict "(string \<times> json) list"

text \<open>An \<^verbatim>\<open>xml.etree.ElementTree.Element\<close>: tag, text and children in document order.\<close>

datatype element = Element (tag: string) (text_of: "string option") (children: "element list")

datatype http_method = GET | POST

datatype payload = NoData | FormData "(string \<times> string) list" | RawData string

record request =
  req_method :: http_method
  req_url :: string
  req_headers :: "(string \<times> string) list"
  req_data :: payload
  req_auth :: "(string \<times> string) option"
  req_allow_redirects :: bool

record response =
  status_code :: int
  content :: string

text \<open>A \<^verbatim>\<open>requests.Session\<close> as the program uses it: the pair stored in \<^verbatim>\<open>session.auth\<close>.\<close>

type_synonym session = "string \<times> string"

subsection \<open>The world outside the program\<close>

text \<open>
  \<open>send\<close> answers a request, given the requests made before it: \<open>Inl\<close> when
  \<^verbatim>\<open>requests\<close> raises instead of returning a response, otherwise the response
  \<^verbatim>\<open>requests\<close> returns (after it has followed redirects, where the call allows them).
  \<open>path_exists\<close> is \<^verbatim>\<open>os.path.exists\<close>. The other fields are library functions:
  \<^verbatim>\<open>response.json()\<close> on the body, \<^verbatim>\<open>json.dumps\<close>, \<^verbatim>\<open>urllib.parse.urlencode\<close> and
  \<^verbatim>\<open>ET.fromstring\<close>.
\<close>

record env =
  send :: "request list \<Rightarrow> request \<Rightarrow> error + response"
  path_exists :: "string \<Rightarrow> bool"
  json_loads :: "string \<Rightarrow> error + json"
  json_dumps :: "json \<Rightarrow> string"
  urlencode :: "(string \<times> string) list \<Rightarrow> string"
  fromstring :: "string \<Rightarrow> error + element"

datatype level = INFO | CRITICAL

record world =
  requests :: "request list"
  logged :: "(level \<times> string) list"
  commands :: "string list"

definition world0 :: world where
  "world0 = \<lparr>requests = [], logged = [], commands = []\<rparr>"

subsection \<open>Sequencing with exceptions\<close>

type_synonym 'a prog = "world \<Rightarrow> (error + 'a) \<times> world"

definition ret :: "'a \<Rightarrow> 'a prog" where
  "ret x w = (Inr x, w)"

definition raise :: "error \<Rightarrow> 'a prog" where
  "raise e w = (Inl e, w)"

definition lift :: "error + 'a \<Rightarrow> 'a prog" where
  "lift r w = (r, w)"

definition then_do :: "'a prog \<Rightarrow> ('a \<Rightarrow> 'b prog) \<Rightarrow> 'b prog" where
  "then_do m f w = (case m w of (Inl e, w') \<Rightarrow> (Inl e, w') | (Inr x, w') \<Rightarrow> f x w')"

definition logger_info :: "string \<Rightarrow> unit prog" where
  "logger_info msg w = (Inr (), w\<lparr>logged := logged w @ [(INFO, msg)]\<rparr>)"

definition logger_critical :: "string \<Rightarrow> unit prog" where
  "logger_critical msg w = (Inr (), w\<lparr>logged := logged w @ [(CRITICAL, msg)]\<rparr>)"

text \<open>\<^verbatim>\<open>os.system\<close>: the command is run; its exit status is ignored by every caller.\<close>

definition os_system :: "string \<Rightarrow> unit prog" where
  "os_system cmd w = (Inr (), w\<lparr>commands := commands w @ [cmd]\<rparr>)"

text \<open>One HTTP exchange: the request is recorded, and the world outside answers it.\<close>

definition http :: "env \<Rightarrow> request \<Rightarrow> response prog" where
  "http e rq w = (send e (requests w) rq, w\<lparr>requests := requests w @ [rq]\<rparr>)"

subsection \<open>Library behaviour the program relies on\<close>

text \<open>
  \<^verbatim>\<open>Response.raise_for_status\<close> raises only for a client or server error status
  (400 to 599) and returns \<^verbatim>\<open>None\<close> for every other status.
\<close>

definition raise_for_status :: "response \<Rightarrow> error + unit" where
  "raise_for_status r =
     (if 400 \<le> status_code r \<and> status_code r < 600 then Inl (HTTPError (status_code r))
      else Inr ())"

text \<open>
  \<^verbatim>\<open>bytes.decode('utf-8')\<close> (strict): the well-formed byte sequences of UTF-8. The scanner
  holds the number of continuation bytes still owed and the range allowed for the next one.
\<close>

fun utf8_scan :: "nat \<Rightarrow> nat \<Rightarrow> nat \<Rightarrow> nat list \<Rightarrow> bool" where
  "utf8_scan owed lo hi [] = (owed = 0)"
| "utf8_scan 0 lo hi (b # bs) =
     (if b < 0x80 then utf8_scan 0 0 0 bs
      else if 0xC2 \<le> b \<and> b \<le> 0xDF then utf8_scan 1 0x80 0xBF bs
      else if b = 0xE0 then utf8_scan 2 0xA0 0xBF bs
      else if b = 0xED then utf8_scan 2 0x80 0x9F bs
      else if 0xE1 \<le> b \<and> b \<le> 0xEF then utf8_scan 2 0x80 0xBF bs
      else if b = 0xF0 then utf8_scan 3 0x90 0xBF bs
      else if 0xF1 \<le> b \<and> b \<le> 0xF3 then utf8_scan 3 0x80 0xBF bs
      else if b = 0xF4 then utf8_scan 3 0x80 0x8F bs
      else False)"
| "utf8_scan (Suc owed) lo hi (b # bs) =
     (lo \<le> b \<and> b \<le> hi \<and> utf8_scan owed 0x80 0xBF bs)"

definition decode_utf8 :: "string \<Rightarrow> error + string" where
  "decode_utf8 bs =
     (if utf8_scan 0 0 0 (map of_char bs) then Inr bs else Inl UnicodeDecodeError)"

text \<open>\<^verbatim>\<open>str.strip(chars)\<close>: leading and trailing characters of \<open>chars\<close> are removed.\<close>

definition str_strip :: "string \<Rightarrow> string \<Rightarrow> string" where
  "str_strip s chars =
     rev (dropWhile (\<lambda>c. c \<in> set chars) (rev (dropWhile (\<lambda>c. c \<in> set chars) s)))"

text \<open>\<^verbatim>\<open>str.split(sep)\<close> for a separator of one character: one more part than separators.\<close>

fun str_split :: "string \<Rightarrow> char \<Rightarrow> string list" where
  "str_split [] sep = [[]]"
| "str_split (c # cs) sep =
     (if c = sep then [] # str_split cs sep
      else (c # hd (str_split cs sep)) # tl (str_split cs sep))"

text \<open>How an f-string renders a natural number: its decimal digits.\<close>

fun str_of_nat :: "nat \<Rightarrow> string" where
  "str_of_nat n =
     (if n < 10 then [''0123456789'' ! n]
      else str_of_nat (n div 10) @ [''0123456789'' ! (n mod 10)])"

declare str_of_nat.simps [simp del]

text \<open>How an f-string renders a value that is \<^verbatim>\<open>None\<close> or a \<^verbatim>\<open>str\<close>.\<close>

fun fmt :: "string option \<Rightarrow> string" where
  "fmt None = ''None''"
| "fmt (Some s) = s"

text \<open>\<^verbatim>\<open>dict.get(key, default)\<close> on a parsed JSON object.\<close>

definition dict_get :: "(string \<times> json) list \<Rightarrow> string \<Rightarrow> json \<Rightarrow> json" where
  "dict_get d k dflt = (case map_of d k of None \<Rightarrow> dflt | Some v \<Rightarrow> v)"

text \<open>
  What a \<^verbatim>\<open>for\<close> loop iterates over: the items of a list, the keys of a dictionary, the
  characters of a string (one item for each byte here; only whether there is a first item
  matters to the program); any other value is not iterable.
\<close>

fun iterate :: "json \<Rightarrow> error + json list" where
  "iterate (JList xs) = Inr xs"
| "iterate (JDict kvs) = Inr (map (\<lambda>kv. JString (fst kv)) kvs)"
| "iterate (JString s) = Inr (map (\<lambda>c. JString [c]) s)"
| "iterate JNull = Inl TypeError"
| "iterate (JBool b) = Inl TypeError"
| "iterate (JNumber n) = Inl TypeError"

text \<open>\<^verbatim>\<open>value == name\<close> for a parsed JSON value and a name that is \<^verbatim>\<open>None\<close> or a \<^verbatim>\<open>str\<close>.\<close>

fun json_eq :: "json \<Rightarrow> string option \<Rightarrow> bool" where
  "json_eq JNull None = True"
| "json_eq (JString s) (Some n) = (s = n)"
| "json_eq v n = False"

text \<open>\<^verbatim>\<open>Element.find(tag)\<close>: the first direct child with that tag, or \<^verbatim>\<open>None\<close>.\<close>

definition find_child :: "element \<Rightarrow> string \<Rightarrow> element option" where
  "find_child el t = find (\<lambda>c. tag c = t) (children el)"

subsection \<open>Constants of the module\<close>

definition GCE_METADATA_ENDPOINT :: string where
  "GCE_METADATA_ENDPOINT = ''http://metadata.google.internal/computeMetadata/v1/instance''"

definition JENKINS_AGENT_JAR_PATH :: string where
  "JENKINS_AGENT_JAR_PATH = ''jnlpJars/agent.jar''"

definition JENKINS_AGENT_JAR_LOCAL_PATH :: string where
  "JENKINS_AGENT_JAR_LOCAL_PATH = ''/tmp/agent.jar''"

definition JENKINS_AGENT_LOCAL_HOME_PATH :: string where
  "JENKINS_AGENT_LOCAL_HOME_PATH = ''/home/ubuntu''"

subsection \<open>get_credentialed_session\<close>

text \<open>
  \<^verbatim>\<open>username, password = credentials.split(':')\<close>: unpacking needs exactly two parts
  (\<^verbatim>\<open>ValueError\<close> otherwise); \<^verbatim>\<open>None\<close> has no \<^verbatim>\<open>split\<close> (\<^verbatim>\<open>AttributeError\<close>).
\<close>

fun get_credentialed_session :: "string option \<Rightarrow> error + session" where
  "get_credentialed_session None = Inl AttributeError"
| "get_credentialed_session (Some credentials) =
     (case str_split credentials (CHR '':'') of
        [username, password] \<Rightarrow> Inr (username, password)
      | _ \<Rightarrow> Inl ValueError)"

subsection \<open>load_instance_metadata_item and load_instance_metadata\<close>

definition metadata_request :: "string \<Rightarrow> request" where
  "metadata_request path =
     \<lparr>req_method = GET,
      req_url = GCE_METADATA_ENDPOINT @ ''/'' @ path,
      req_headers = [(''Metadata-Flavor'', ''Google'')],
      req_data = NoData,
      req_auth = None,
      req_allow_redirects = True\<rparr>"

text \<open>
  A status of 200 returns the decoded body. Otherwise \<^verbatim>\<open>raise_for_status\<close> is called, and
  when it does not raise the function ends without a \<^verbatim>\<open>return\<close>: the result is \<^verbatim>\<open>None\<close>.
\<close>

definition load_instance_metadata_item :: "env \<Rightarrow> string \<Rightarrow> string option prog" where
  "load_instance_metadata_item e path =
     then_do (http e (metadata_request path)) (\<lambda>response.
       if status_code response = 200
       then then_do (lift (decode_utf8 (content response))) (\<lambda>txt. ret (Some txt))
       else then_do (lift (raise_for_status response)) (\<lambda>_. ret None))"

record instance_data =
  data_jenkins_url :: string
  data_name :: "string option"
  data_jnlp_credentials :: "string option"
  data_jenkins_label :: "string option"

definition load_instance_metadata :: "env \<Rightarrow> instance_data prog" where
  "load_instance_metadata e =
     then_do (logger_info ''Retrieving GCE internal computeMetadata'') (\<lambda>_.
     then_do (load_instance_metadata_item e ''name'') (\<lambda>node_name.
     then_do (load_instance_metadata_item e ''attributes/JENKINS_URL'') (\<lambda>jenkins_url.
     then_do (load_instance_metadata_item e ''attributes/JNLP_CREDENTIALS'') (\<lambda>jnlp_credentials.
     then_do (load_instance_metadata_item e ''attributes/JENKINS_AGENT_LABEL'') (\<lambda>jenkins_label.
       case jenkins_url of
         None \<Rightarrow> raise AttributeError
       | Some u \<Rightarrow>
           ret \<lparr>data_jenkins_url = str_strip u ''/'',
                data_name = node_name,
                data_jnlp_credentials = jnlp_credentials,
                data_jenkins_label = jenkins_label\<rparr>)))))"

subsection \<open>_is_already_registered\<close>

definition node_list_request :: "string \<Rightarrow> session \<Rightarrow> request" where
  "node_list_request jenkins_url session =
     \<lparr>req_method = GET,
      req_url = jenkins_url @ ''/computer/api/json?tree=computer[displayName]'',
      req_headers = [],
      req_data = NoData,
      req_auth = Some session,
      req_allow_redirects = True\<rparr>"

text \<open>
  The loop over \<^verbatim>\<open>computers\<close>: each item must have a \<^verbatim>\<open>get\<close> (be a dictionary), the first
  item whose \<^verbatim>\<open>displayName\<close> equals the name ends the loop with \<^verbatim>\<open>True\<close>.
\<close>

fun scan_computers :: "json list \<Rightarrow> string option \<Rightarrow> bool prog" where
  "scan_computers [] name = ret False"
| "scan_computers (computer # rest) name =
     (case computer of
        JDict kvs \<Rightarrow>
          if json_eq (dict_get kvs ''displayName'' JNull) name
          then then_do (logger_info (''Worker '' @ fmt name @ '' already registered''))
                 (\<lambda>_. ret True)
          else scan_computers rest name
      | _ \<Rightarrow> raise AttributeError)"

definition is_already_registered ::
  "env \<Rightarrow> string \<Rightarrow> string option \<Rightarrow> session \<Rightarrow> bool prog" where
  "is_already_registered e jenkins_url name session =
     then_do (logger_info (''Checking if worker '' @ fmt name @ '' is already registered'')) (\<lambda>_.
     then_do (http e (node_list_request jenkins_url session)) (\<lambda>response.
     then_do
       (if status_code response \<noteq> 200
        then then_do
               (logger_critical (''Error checking for existing workers at URL: ''
                  @ req_url (node_list_request jenkins_url session)))
               (\<lambda>_. lift (raise_for_status response))
        else ret ()) (\<lambda>_.
     then_do (lift (json_loads e (content response))) (\<lambda>node_list.
       case node_list of
         JDict kvs \<Rightarrow>
           then_do (lift (iterate (dict_get kvs ''computer'' (JList [])))) (\<lambda>computers.
             scan_computers computers name)
       | _ \<Rightarrow> raise AttributeError))))"

subsection \<open>_deregister_with_jenkins_master\<close>

definition delete_request :: "string \<Rightarrow> string option \<Rightarrow> session \<Rightarrow> request" where
  "delete_request jenkins_url name session =
     \<lparr>req_method = POST,
      req_url = jenkins_url @ ''/computer/'' @ fmt name @ ''/doDelete'',
      req_headers = [],
      req_data = FormData [(''json'', ''{\"Submit\": \"Yes\"}''), (''Submit'', ''Yes'')],
      req_auth = Some session,
      req_allow_redirects = False\<rparr>"

definition deregister_with_jenkins_master ::
  "env \<Rightarrow> string \<Rightarrow> string option \<Rightarrow> string option \<Rightarrow> unit prog" where
  "deregister_with_jenkins_master e jenkins_url name credentials =
     then_do (logger_info (''De-registering worker '' @ fmt name @ '' from Jenkins '' @ jenkins_url))
       (\<lambda>_.
     then_do (lift (get_credentialed_session credentials)) (\<lambda>session.
     then_do (http e (delete_request jenkins_url name session)) (\<lambda>delete_r.
       if status_code delete_r = 302
       then logger_info (''Worker '' @ fmt name @ '' successfully de-registered from Jenkins ''
              @ jenkins_url)
       else
         then_do (is_already_registered e jenkins_url name session) (\<lambda>registered.
           if \<not> registered
           then logger_info (''Worker '' @ fmt name @ '' already de-registered'')
           else
             then_do
               (logger_critical (''Error de-registering jenkins worker at URL: ''
                  @ req_url (delete_request jenkins_url name session)))
               (\<lambda>_. lift (raise_for_status delete_r))))))"

subsection \<open>_do_registration\<close>

fun to_json :: "string option \<Rightarrow> json" where
  "to_json None = JNull"
| "to_json (Some s) = JString s"

definition registration_params ::
  "env \<Rightarrow> string option \<Rightarrow> string \<Rightarrow> string option \<Rightarrow> (string \<times> string) list" where
  "registration_params e name remote_fs jenkins_label =
     [(''name'', fmt name),
      (''type'', ''hudson.slaves.DumbSlave$DescriptorImpl''),
      (''json'', json_dumps e (JDict
         [(''name'', to_json name),
          (''nodeDescription'', JNull),
          (''numExecutors'', JNumber 1),
          (''remoteFS'', JString remote_fs),
          (''labelString'', to_json jenkins_label),
          (''mode'', JString ''NORMAL''),
          (''type'', JString ''hudson.slaves.DumbSlave$DescriptorImpl''),
          (''retentionStrategy'',
             JDict [(''stapler-class'', JString ''hudson.slaves.RetentionStrategy$Always'')]),
          (''nodeProperties'', JDict [(''stapler-class-bag'', JString ''true'')]),
          (''launcher'', JDict [(''stapler-class'', JString ''hudson.slaves.JNLPLauncher'')])]))]"

definition create_request ::
  "env \<Rightarrow> string \<Rightarrow> string option \<Rightarrow> session \<Rightarrow> string option \<Rightarrow> request" where
  "create_request e jenkins_url name session jenkins_label =
     \<lparr>req_method = POST,
      req_url = jenkins_url @ ''/computer/doCreateItem?''
        @ urlencode e (registration_params e name JENKINS_AGENT_LOCAL_HOME_PATH jenkins_label),
      req_headers = [],
      req_data = NoData,
      req_auth = Some session,
      req_allow_redirects = False\<rparr>"

definition jenkins_env :: "string \<Rightarrow> (string \<times> string) list" where
  "jenkins_env remote_fs = [(''HOME'', remote_fs)]"

definition jenkins_env_string :: "(string \<times> string) list \<Rightarrow> string" where
  "jenkins_env_string kvs =
     concat (map (\<lambda>kv. ''<string>'' @ fst kv @ ''</string><string>'' @ snd kv @ ''</string>'') kvs)"

text \<open>The document posted to \<^verbatim>\<open>config.xml\<close>.\<close>

definition config_xml :: "string option \<Rightarrow> string \<Rightarrow> string option \<Rightarrow> string" where
  "config_xml name remote_fs jenkins_label = concat
     [''\<newline>'',
      ''    <slave>\<newline>'',
      ''        <name>'', fmt name, ''</name>\<newline>'',
      ''        <description/>\<newline>'',
      ''        <remoteFS>'', remote_fs, ''</remoteFS>\<newline>'',
      ''        <numExecutors>1</numExecutors>\<newline>'',
      ''        <mode>EXCLUSIVE</mode>\<newline>'',
      ''        <retentionStrategy class=\"hudson.slaves.RetentionStrategy$Always\"/>\<newline>'',
      ''        <launcher class=\"hudson.slaves.JNLPLauncher\">\<newline>'',
      ''            <webSocket>true</webSocket>\<newline>'',
      ''        </launcher>\<newline>'',
      ''        <label>'', fmt jenkins_label, ''</label>\<newline>'',
      ''        <nodeProperties>\<newline>'',
      ''            <hudson.slaves.EnvironmentVariablesNodeProperty>\<newline>'',
      ''                <envVars serialization=\"custom\">\<newline>'',
      ''                    <unserializable-parents/>\<newline>'',
      ''                    <tree-map>\<newline>'',
      ''                        <default>\<newline>'',
      ''                            <comparator class=\"hudson.util.CaseInsensitiveComparator\"/>\<newline>'',
      ''                        </default>\<newline>'',
      ''                        <int>'', str_of_nat (length (jenkins_env remote_fs)),
        ''</int>\<newline>'',
      ''                        '', jenkins_env_string (jenkins_env remote_fs), ''\<newline>'',
      ''                    </tree-map>\<newline>'',
      ''                </envVars>\<newline>'',
      ''            </hudson.slaves.EnvironmentVariablesNodeProperty>\<newline>'',
      ''        </nodeProperties>\<newline>'',
      ''    </slave>\<newline>'',
      ''    '']"

definition update_request ::
  "string \<Rightarrow> string option \<Rightarrow> session \<Rightarrow> string option \<Rightarrow> request" where
  "update_request jenkins_url name session jenkins_label =
     \<lparr>req_method = POST,
      req_url = jenkins_url @ ''/computer/'' @ fmt name @ ''/config.xml'',
      req_headers = [],
      req_data = RawData (config_xml name JENKINS_AGENT_LOCAL_HOME_PATH jenkins_label),
      req_auth = Some session,
      req_allow_redirects = False\<rparr>"

definition do_registration ::
  "env \<Rightarrow> string \<Rightarrow> string option \<Rightarrow> session \<Rightarrow> string option \<Rightarrow> unit prog" where
  "do_registration e jenkins_url name session jenkins_label =
     then_do (logger_info (''Registering worker '' @ fmt name @ '' with Jenkins '' @ jenkins_url))
       (\<lambda>_.
     then_do (http e (create_request e jenkins_url name session jenkins_label)) (\<lambda>r.
     then_do
       (if status_code r \<noteq> 302
        then then_do
               (logger_critical (''Error registering jenkins worker at URL: ''
                  @ req_url (create_request e jenkins_url name session jenkins_label)))
               (\<lambda>_. lift (raise_for_status r))
        else ret ()) (\<lambda>_.
     then_do
       (logger_info (''Updating '' @ req_url (update_request jenkins_url name session jenkins_label)))
       (\<lambda>_.
     then_do (http e (update_request jenkins_url name session jenkins_label)) (\<lambda>response.
       if status_code response \<noteq> 200 then lift (raise_for_status response) else ret ())))))"

subsection \<open>handle_shutdown\<close>

definition handle_shutdown :: "env \<Rightarrow> unit prog" where
  "handle_shutdown e =
     then_do (load_instance_metadata e) (\<lambda>data.
       deregister_with_jenkins_master e
         (data_jenkins_url data) (data_name data) (data_jnlp_credentials data))"

subsection \<open>_get_jnlp_secret\<close>

definition jnlp_url :: "string \<Rightarrow> string option \<Rightarrow> string" where
  "jnlp_url jenkins_url name = jenkins_url @ ''/computer/'' @ fmt name @ ''/jenkins-agent.jnlp''"

definition jnlp_request :: "string \<Rightarrow> string option \<Rightarrow> session \<Rightarrow> request" where
  "jnlp_request jenkins_url name session =
     \<lparr>req_method = GET,
      req_url = jnlp_url jenkins_url name,
      req_headers = [],
      req_data = NoData,
      req_auth = Some session,
      req_allow_redirects = True\<rparr>"

text \<open>
  \<^verbatim>\<open>root.find('application-desc').find('argument').text\<close>: each \<^verbatim>\<open>find\<close> that yields
  \<^verbatim>\<open>None\<close> makes the next attribute access raise \<^verbatim>\<open>AttributeError\<close>.
\<close>

definition secret_of_root :: "element \<Rightarrow> error + string option" where
  "secret_of_root root =
     (case find_child root ''application-desc'' of
        None \<Rightarrow> Inl AttributeError
      | Some desc \<Rightarrow>
          (case find_child desc ''argument'' of
             None \<Rightarrow> Inl AttributeError
           | Some arg \<Rightarrow> Inr (text_of arg)))"

definition get_jnlp_secret ::
  "env \<Rightarrow> string \<Rightarrow> string option \<Rightarrow> session \<Rightarrow> string option prog" where
  "get_jnlp_secret e jenkins_url name session =
     then_do (logger_info (''Retrieving jnlp secret for worker '' @ fmt name)) (\<lambda>_.
     then_do (http e (jnlp_request jenkins_url name session)) (\<lambda>response.
     then_do
       (if status_code response \<noteq> 200
        then then_do (logger_critical (''Error fetching '' @ jnlp_url jenkins_url name))
               (\<lambda>_. lift (raise_for_status response))
        else ret ()) (\<lambda>_.
     then_do (lift (decode_utf8 (content response))) (\<lambda>xml_content.
     then_do (lift (fromstring e xml_content)) (\<lambda>root.
       lift (secret_of_root root))))))"

subsection \<open>handle_start\<close>

definition wget_command :: "string \<Rightarrow> string" where
  "wget_command jenkins_url =
     ''wget '' @ jenkins_url @ ''/'' @ JENKINS_AGENT_JAR_PATH @ '' -O ''
       @ JENKINS_AGENT_JAR_LOCAL_PATH"

definition java_jar_agent_command :: "string \<Rightarrow> string option \<Rightarrow> string option \<Rightarrow> string" where
  "java_jar_agent_command jenkins_url name jnlp_secret =
     ''java -jar '' @ JENKINS_AGENT_JAR_LOCAL_PATH
       @ '' -noReconnect''
       @ '' -jnlpUrl '' @ jenkins_url @ ''/computer/'' @ fmt name @ ''/jenkins-agent.jnlp''
       @ '' -secret '' @ fmt jnlp_secret"

text \<open>
  The block of \<^verbatim>\<open>handle_start\<close> that downloads the agent jar from the coordinator, with
  \<^verbatim>\<open>wget\<close>, when the jar is not there yet.
\<close>

definition fetch_agent_jar :: "env \<Rightarrow> string \<Rightarrow> unit prog" where
  "fetch_agent_jar e jenkins_url =
     (if \<not> path_exists e JENKINS_AGENT_JAR_LOCAL_PATH
      then then_do
             (logger_info (''Fetching '' @ jenkins_url @ ''/'' @ JENKINS_AGENT_JAR_PATH))
             (\<lambda>_. os_system (wget_command jenkins_url))
      else ret ())"

definition handle_start :: "env \<Rightarrow> unit prog" where
  "handle_start e =
     then_do (load_instance_metadata e) (\<lambda>data.
     then_do (fetch_agent_jar e (data_jenkins_url data)) (\<lambda>_.
     then_do (lift (get_credentialed_session (data_jnlp_credentials data))) (\<lambda>session.
     then_do (is_already_registered e (data_jenkins_url data) (data_name data) session)
       (\<lambda>registered.
     then_do
       (if \<not> registered
        then do_registration e (data_jenkins_url data) (data_name data) session
               (data_jenkins_label data)
        else ret ()) (\<lambda>_.
     then_do (get_jnlp_secret e (data_jenkins_url data) (data_name data) session) (\<lambda>jnlp_secret.
     then_do (logger_info ''Starting agent and connecting over jnlp'') (\<lambda>_.
       os_system (java_jar_agent_command (data_jenkins_url data) (data_name data) jnlp_secret))))))))"

subsection \<open>Example environments\<close>

text \<open>
  Concrete worlds on which the functions are run below. The servers answer from a table
  keyed by method and URL (404 for anything else); the parsers are defined on the
  documents of the examples. \<open>json_dumps\<close> and \<open>urlencode\<close> are stand-ins: no example
  depends on the text they return.
\<close>

definition answer_table :: "((http_method \<times> string) \<times> response) list \<Rightarrow> request \<Rightarrow> response" where
  "answer_table tbl rq =
     (case map_of tbl (req_method rq, req_url rq) of
        Some r \<Rightarrow> r
      | None \<Rightarrow> \<lparr>status_code = 404, content = ''''\<rparr>)"

definition parse_table :: "(string \<times> 'a) list \<Rightarrow> error \<Rightarrow> string \<Rightarrow> error + 'a" where
  "parse_table docs err body = (case map_of docs body of Some v \<Rightarrow> Inr v | None \<Rightarrow> Inl err)"

definition agent7_listed :: json where
  "agent7_listed =
     JDict [(''computer'',
       JList [JDict [(''displayName'', JString ''agent-3'')],
              JDict [(''displayName'', JString ''agent-7'')]])]"

definition example_json :: "(string \<times> json) list" where
  "example_json =
     [(''{\"computer\": [{\"displayName\": \"agent-3\"}, {\"displayName\": \"agent-7\"}]}'',
       agent7_listed),
      (''{\"computer\": []}'', JDict [(''computer'', JList [])])]"

definition example_xml :: "(string \<times> element) list" where
  "example_xml =
     [(''<jnlp><application-desc><argument>s3cret</argument></application-desc></jnlp>'',
       Element ''jnlp'' None
         [Element ''application-desc'' None [Element ''argument'' (Some ''s3cret'') []]]),
      (''<jnlp><application-desc/></jnlp>'',
       Element ''jnlp'' None [Element ''application-desc'' None []])]"

definition example_env :: "(request \<Rightarrow> response) \<Rightarrow> bool \<Rightarrow> env" where
  "example_env answer jar =
     \<lparr>send = (\<lambda>hist rq. Inr (answer rq)),
      path_exists = (\<lambda>p. jar),
      json_loads = parse_table example_json JSONDecodeError,
      json_dumps = (\<lambda>j. ''{}''),
      urlencode = (\<lambda>kvs. concat (map (\<lambda>kv. fst kv @ ''=&'') kvs)),
      fromstring = parse_table example_xml ParseError\<rparr>"

definition ok :: "string \<Rightarrow> response" where
  "ok body = \<lparr>status_code = 200, content = body\<rparr>"

text \<open>The metadata service of an instance, and a coordinator at \<^verbatim>\<open>http://ci.example.com\<close>.\<close>

definition metadata_answers ::
  "string \<Rightarrow> string \<Rightarrow> string \<Rightarrow> string \<Rightarrow> ((http_method \<times> string) \<times> response) list" where
  "metadata_answers node_name jenkins_url jnlp_credentials jenkins_label =
     [((GET, req_url (metadata_request ''name'')), ok node_name),
      ((GET, req_url (metadata_request ''attributes/JENKINS_URL'')), ok jenkins_url),
      ((GET, req_url (metadata_request ''attributes/JNLP_CREDENTIALS'')), ok jnlp_credentials),
      ((GET, req_url (metadata_request ''attributes/JENKINS_AGENT_LABEL'')), ok jenkins_label)]"

definition coordinator_answers ::
  "string \<Rightarrow> string \<Rightarrow> ((http_method \<times> string) \<times> response) list" where
  "coordinator_answers node_list jnlp =
     [((GET, ''http://ci.example.com/computer/api/json?tree=computer[displayName]''), ok node_list),
      ((GET, ''http://ci.example.com/computer/agent-7/jenkins-agent.jnlp''), ok jnlp)]"

text \<open>
  The instance of the spec's scenario. Its coordinator answers a create request with 302
  and a configuration update with 200.
\<close>

definition scenario_env :: "string \<Rightarrow> string \<Rightarrow> bool \<Rightarrow> env" where
  "scenario_env jnlp_credentials node_list jar = example_env
     (\<lambda>rq. if req_method rq = POST
           then (if req_data rq = NoData then \<lparr>status_code = 302, content = ''''\<rparr> else ok '''')
           else answer_table
             (metadata_answers ''agent-7'' ''http://ci.example.com/'' jnlp_credentials ''linux''
              @ coordinator_answers node_list
                  ''<jnlp><application-desc><argument>s3cret</argument></application-desc></jnlp>'')
             rq)
     jar"


text \<open>A coordinator that confirms the deletion of \<^verbatim>\<open>agent-7\<close>.\<close>

definition deleted_env :: env where
  "deleted_env = example_env
     (answer_table
        [((POST, ''http://ci.example.com/computer/agent-7/doDelete''),
          \<lparr>status_code = 302, content = ''''\<rparr>)])
     True"

text \<open>
  A coordinator behind a proxy that answers every POST with 301 (moved permanently) and
  still lists \<^verbatim>\<open>agent-7\<close>.
\<close>

definition moved_env :: env where
  "moved_env = example_env
     (\<lambda>rq. if req_method rq = POST then \<lparr>status_code = 301, content = ''''\<rparr>
           else ok ''{\"computer\": [{\"displayName\": \"agent-3\"}, {\"displayName\": \"agent-7\"}]}'')
     True"

text \<open>A metadata service that answers 204 (no content).\<close>

definition no_content_env :: env where
  "no_content_env = example_env (\<lambda>rq. \<lparr>status_code = 204, content = ''''\<rparr>) True"

text \<open>A coordinator whose agent document has no \<^verbatim>\<open>argument\<close> element.\<close>

definition bare_jnlp_env :: env where
  "bare_jnlp_env = example_env
     (answer_table (coordinator_answers ''{\"computer\": []}'' ''<jnlp><application-desc/></jnlp>''))
     True"


section \<open>Facts about the library functions\<close>

lemmas prog_defs = then_do_def ret_def raise_def lift_def logger_info_def logger_critical_def
  os_system_def http_def





lemma str_split_not_Nil: "str_split s sep \<noteq> []"
  by (induction s) auto

lemma length_str_split: "length (str_split s sep) = Suc (count_list s sep)"
  by (induction s) (auto simp: str_split_not_Nil)

lemma json_eq_Some: "json_eq v (Some n) = (v = JString n)"
  by (cases v) auto

section \<open>The requests each function sends\<close>

lemma item_requests:
  "load_instance_metadata_item e p w = (r, w') \<Longrightarrow>
   requests w' = requests w @ [metadata_request p]"
  by (auto simp: load_instance_metadata_item_def prog_defs split: sum.splits if_splits)

lemma load_requests:
  assumes "load_instance_metadata e w = (Inr d, w')"
  shows "requests w' = requests w @ map metadata_request
     [''name'', ''attributes/JENKINS_URL'', ''attributes/JNLP_CREDENTIALS'',
      ''attributes/JENKINS_AGENT_LABEL'']"
  using assms unfolding load_instance_metadata_def then_do_def logger_info_def raise_def ret_def
  by (auto split: sum.splits prod.splits option.splits dest!: item_requests)

lemma load_stripped:
  assumes "load_instance_metadata e w = (Inr d, w')"
  shows "\<exists>raw. data_jenkins_url d = str_strip raw ''/''"
  using assms unfolding load_instance_metadata_def then_do_def logger_info_def raise_def ret_def
  by (auto split: sum.splits prod.splits option.splits)

lemma fetch_agent_jar_result:
  "fst (fetch_agent_jar e u w) = Inr () \<and> requests (snd (fetch_agent_jar e u w)) = requests w"
  by (simp add: fetch_agent_jar_def prog_defs)

lemma scan_computers_requests: "requests (snd (scan_computers cs n w)) = requests w"
  by (induction cs arbitrary: w) (auto simp: prog_defs split: json.splits)

lemma is_already_registered_requests:
  "requests (snd (is_already_registered e u n s w)) = requests w @ [node_list_request u s]"
  by (auto simp: is_already_registered_def prog_defs scan_computers_requests
      split: sum.splits prod.splits json.splits)




lemma request_methods:
  "req_method (metadata_request p) = GET"
  "req_method (node_list_request u s) = GET"
  "req_method (jnlp_request u n s) = GET"
  "req_method (create_request e u n s l) = POST"
  "req_method (update_request u n s l) = POST"
  by (simp_all add: metadata_request_def node_list_request_def jnlp_request_def
      create_request_def update_request_def)


text \<open>
  The existence check on a node list of the documented shape: the answer is whether some
  entry carries the name.
\<close>

lemma scan_computers_result:
  "\<forall>c \<in> set cs. \<exists>d. c = JDict d \<Longrightarrow>
   fst (scan_computers cs (Some name) w) =
     Inr (\<exists>d. JDict d \<in> set cs \<and> map_of d ''displayName'' = Some (JString name))"
proof (induction cs arbitrary: w)
  case Nil
  then show ?case by (simp add: ret_def)
next
  case (Cons c cs)
  then obtain d where d: "c = JDict d" by auto
  show ?case
  proof (cases "map_of d ''displayName'' = Some (JString name)")
    case True
    then show ?thesis
      using d by (auto simp: prog_defs json_eq_Some dict_get_def)
  next
    case False
    then have "\<not> json_eq (dict_get d ''displayName'' JNull) (Some name)"
      by (auto simp: json_eq_Some dict_get_def split: option.splits)
    then show ?thesis
      using d False Cons by auto
  qed
qed

text \<open>
  What deregistration does after a delete response other than 302: one existence check,
  then a normal return when the node is absent, and \<^verbatim>\<open>raise_for_status\<close> of the delete
  response when it is still there.
\<close>

lemma deregister_recheck:
  assumes "get_credentialed_session credentials = Inr session"
    and "send e (requests w) (delete_request jenkins_url name session) = Inr delete_r"
    and "status_code delete_r \<noteq> 302"
    and "is_already_registered e jenkins_url name session
           (w\<lparr>logged := logged w @
                [(INFO, ''De-registering worker '' @ fmt name @ '' from Jenkins '' @ jenkins_url)],
              requests := requests w @ [delete_request jenkins_url name session]\<rparr>)
         = (Inr registered, w')"
  shows "requests (snd (deregister_with_jenkins_master e jenkins_url name credentials w)) =
           requests w @ [delete_request jenkins_url name session,
                         node_list_request jenkins_url session]
       \<and> fst (deregister_with_jenkins_master e jenkins_url name credentials w) =
           (if registered then raise_for_status delete_r else Inr ())"
proof -
  let ?w1 = "w\<lparr>logged := logged w @
                [(INFO, ''De-registering worker '' @ fmt name @ '' from Jenkins '' @ jenkins_url)],
              requests := requests w @ [delete_request jenkins_url name session]\<rparr>"
  have "requests (snd (is_already_registered e jenkins_url name session ?w1)) =
          requests ?w1 @ [node_list_request jenkins_url session]"
    by (rule is_already_registered_requests)
  then have r: "requests w' = requests w @ [delete_request jenkins_url name session,
                         node_list_request jenkins_url session]"
    using assms(4) by simp
  show ?thesis
    using assms r by (simp add: deregister_with_jenkins_master_def prog_defs)
qed

text \<open>The three outcomes of a metadata fetch that got a response.\<close>

lemma load_instance_metadata_item_cases:
  assumes "send e (requests w) (metadata_request path) = Inr response"
  shows "fst (load_instance_metadata_item e path w) =
     (if status_code response = 200 then
        (case decode_utf8 (content response) of Inl err \<Rightarrow> Inl err | Inr txt \<Rightarrow> Inr (Some txt))
      else if 400 \<le> status_code response \<and> status_code response < 600
        then Inl (HTTPError (status_code response))
      else Inr None)"
  using assms
  by (simp add: load_instance_metadata_item_def prog_defs raise_for_status_def split: sum.splits)

lemma send_example_env: "send (example_env answer jar) hist rq = Inr (answer rq)"
  by (simp add: example_env_def)

section \<open>Further facts used below\<close>




lemma fetch_agent_jar_commands:
  "commands (snd (fetch_agent_jar e u w)) = commands w @
     (if path_exists e JENKINS_AGENT_JAR_LOCAL_PATH then [] else [wget_command u])"
  by (simp add: fetch_agent_jar_def prog_defs)

lemma str_split_single: "str_split s sep = [a] \<Longrightarrow> s = a"
proof (induction s arbitrary: a)
  case Nil
  then show ?case by simp
next
  case (Cons c cs)
  then show ?case
    by (cases "str_split cs sep") (auto simp: str_split_not_Nil split: if_splits)
qed

lemma str_split_pair: "str_split s sep = [a, b] \<Longrightarrow> s = a @ sep # b"
proof (induction s arbitrary: a)
  case Nil
  then show ?case by simp
next
  case (Cons c cs)
  show ?case
  proof (cases "c = sep")
    case True
    with Cons.prems have "a = []" "str_split cs sep = [b]" by auto
    then show ?thesis using True str_split_single by auto
  next
    case False
    with Cons.prems have a: "a = c # hd (str_split cs sep)" and t: "tl (str_split cs sep) = [b]"
      by auto
    have "str_split cs sep = [hd (str_split cs sep), b]"
      using t str_split_not_Nil[of cs sep] by (cases "str_split cs sep") auto
    then have "cs = hd (str_split cs sep) @ sep # b" by (rule Cons.IH)
    then show ?thesis using a by simp
  qed
qed








text \<open>The example environments, run.\<close>

lemmas example_defs = send_example_env answer_table_def metadata_answers_def
  coordinator_answers_def request_methods metadata_request_def GCE_METADATA_ENDPOINT_def ok_def
  decode_utf8_def str_strip_def


lemma scenario_load_two_colons:
  "fst (load_instance_metadata (scenario_env ''u:p:q'' nodes jar) w) =
     Inr \<lparr>data_jenkins_url = ''http://ci.example.com'', data_name = Some ''agent-7'',
          data_jnlp_credentials = Some ''u:p:q'', data_jenkins_label = Some ''linux''\<rparr>"
  by (simp add: load_instance_metadata_def load_instance_metadata_item_def prog_defs
      scenario_env_def example_defs)



section \<open>The claims\<close>

text \<open>
  C1. After a delete response other than 302 the deregistration makes one existence check;
  when the node is gone it returns normally, and when the node is still there it is meant to
  raise the error of the delete response. \<open>deregister_recheck\<close> above shows the one check and
  the normal return, and that the last step is \<^verbatim>\<open>raise_for_status\<close> of the delete response,
  which raises only for a status from 400 to 599. Run against a coordinator that answers the
  delete with 301 and still lists the node, the function logs the critical error and then
  returns normally.
\<close>

theorem deregister_301_still_registered_returns:
  "deregister_with_jenkins_master moved_env ''http://ci.example.com'' (Some ''agent-7'')
     (Some ''u:p'') world0 =
   (Inr (),
    \<lparr>requests =
       [delete_request ''http://ci.example.com'' (Some ''agent-7'') (''u'', ''p''),
        node_list_request ''http://ci.example.com'' (''u'', ''p'')],
     logged =
       [(INFO, ''De-registering worker agent-7 from Jenkins http://ci.example.com''),
        (INFO, ''Checking if worker agent-7 is already registered''),
        (INFO, ''Worker agent-7 already registered''),
        (CRITICAL, ''Error de-registering jenkins worker at URL: http://ci.example.com/computer/agent-7/doDelete'')],
     commands = []\<rparr>)"
proof -
  have d: "req_method (delete_request u n s) = POST" for u n s
    by (simp add: delete_request_def)
  have du: "req_url (delete_request ''http://ci.example.com'' (Some ''agent-7'') s) =
      ''http://ci.example.com/computer/agent-7/doDelete''" for s
    by (simp add: delete_request_def)
  have j: "json_loads moved_env
      ''{\"computer\": [{\"displayName\": \"agent-3\"}, {\"displayName\": \"agent-7\"}]}''
      = Inr agent7_listed"
    by (simp add: moved_env_def example_env_def parse_table_def example_json_def)
  show ?thesis
    by (simp add: deregister_with_jenkins_master_def is_already_registered_def prog_defs
        moved_env_def send_example_env j[unfolded moved_env_def] d du request_methods ok_def
        agent7_listed_def world0_def raise_for_status_def dict_get_def)
qed

text \<open>
  C2. A metadata fetch returns the decoded body for status 200 and is meant to raise for
  every other status. \<open>load_instance_metadata_item_cases\<close> above gives what the code does:
  it raises for a status from 400 to 599 only, and for any other status than 200 it returns
  \<^verbatim>\<open>None\<close>. Run against a service that answers 204, the fetch returns \<^verbatim>\<open>None\<close>.
\<close>

theorem metadata_item_204_returns_None:
  "load_instance_metadata_item no_content_env ''name'' world0 =
     (Inr None, \<lparr>requests = [metadata_request ''name''], logged = [], commands = []\<rparr>)"
  by (simp add: load_instance_metadata_item_def prog_defs no_content_env_def send_example_env
      world0_def raise_for_status_def)

text \<open>
  C3. In the registration a create response of 302 is success, and every other status is
  meant to raise before the configuration update. Run against a coordinator that answers the
  create request with 301, the function logs the critical error, \<^verbatim>\<open>raise_for_status\<close> does
  not raise, and the configuration update is posted all the same.
\<close>

theorem do_registration_301_goes_on:
  "do_registration moved_env ''http://ci.example.com'' (Some ''agent-7'') (''u'', ''p'')
     (Some ''linux'') world0 =
   (Inr (),
    \<lparr>requests =
       [create_request moved_env ''http://ci.example.com'' (Some ''agent-7'') (''u'', ''p'')
          (Some ''linux''),
        update_request ''http://ci.example.com'' (Some ''agent-7'') (''u'', ''p'') (Some ''linux'')],
     logged =
       [(INFO, ''Registering worker agent-7 with Jenkins http://ci.example.com''),
        (CRITICAL, ''Error registering jenkins worker at URL: ''
           @ req_url (create_request moved_env ''http://ci.example.com'' (Some ''agent-7'')
               (''u'', ''p'') (Some ''linux''))),
        (INFO, ''Updating http://ci.example.com/computer/agent-7/config.xml'')],
     commands = []\<rparr>)"
proof -
  have uu: "req_url (update_request ''http://ci.example.com'' (Some ''agent-7'') s l)
      = ''http://ci.example.com/computer/agent-7/config.xml''" for s l
    by (simp add: update_request_def)
  have s: "send moved_env h rq = Inr (if req_method rq = POST then \<lparr>status_code = 301, content = ''''\<rparr>
           else ok ''{\"computer\": [{\"displayName\": \"agent-3\"}, {\"displayName\": \"agent-7\"}]}'')" for h rq
    by (simp add: moved_env_def example_env_def)
  show ?thesis
    by (simp add: do_registration_def prog_defs s request_methods uu world0_def raise_for_status_def)
qed

text \<open>
  C4. For a node-list response with status 200 whose body is a node list (an object whose
  \<^verbatim>\<open>computer\<close> entry, when present, is a list of objects), the existence check returns
  true exactly when some entry has the queried name as its \<^verbatim>\<open>displayName\<close>, compared
  character by character, and it returns false for an empty list.
\<close>

theorem is_already_registered_iff_display_name:
  assumes "send e (requests w) (node_list_request jenkins_url session) = Inr response"
    and "status_code response = 200"
    and "json_loads e (content response) = Inr (JDict node_list)"
    and "dict_get node_list ''computer'' (JList []) = JList computers"
    and "\<forall>computer \<in> set computers. \<exists>d. computer = JDict d"
  shows "fst (is_already_registered e jenkins_url (Some name) session w) =
           Inr (\<exists>d. JDict d \<in> set computers \<and> map_of d ''displayName'' = Some (JString name))
       \<and> (computers = [] \<longrightarrow>
            fst (is_already_registered e jenkins_url (Some name) session w) = Inr False)"
proof -
  have "fst (is_already_registered e jenkins_url (Some name) session w) =
           Inr (\<exists>d. JDict d \<in> set computers \<and> map_of d ''displayName'' = Some (JString name))"
    using assms(1-4) scan_computers_result[OF assms(5)]
    by (simp add: is_already_registered_def then_do_def ret_def lift_def logger_info_def http_def)
  then show ?thesis by auto
qed

theorem is_already_registered_iff_display_name_witness:
  "fst (is_already_registered moved_env ''http://ci.example.com'' (Some ''agent-7'') (''u'', ''p'')
          world0) = Inr True
   \<and> fst (is_already_registered moved_env ''http://ci.example.com'' (Some ''Agent-7'') (''u'', ''p'')
          world0) = Inr False"
proof -
  let ?doc = "''{\"computer\": [{\"displayName\": \"agent-3\"}, {\"displayName\": \"agent-7\"}]}''"
  let ?computers = "[JDict [(''displayName'', JString ''agent-3'')],
                     JDict [(''displayName'', JString ''agent-7'')]]"
  have s: "send moved_env (requests world0)
      (node_list_request ''http://ci.example.com'' (''u'', ''p'')) = Inr (ok ?doc)"
    by (simp add: moved_env_def send_example_env request_methods)
  have c: "status_code (ok ?doc) = 200"
    by (simp add: ok_def)
  have j: "json_loads moved_env (content (ok ?doc)) = Inr (JDict [(''computer'', JList ?computers)])"
    by (simp add: moved_env_def example_env_def parse_table_def example_json_def ok_def
        agent7_listed_def)
  have g: "dict_get [(''computer'', JList ?computers)] ''computer'' (JList []) = JList ?computers"
    by (simp add: dict_get_def)
  have d: "\<forall>computer \<in> set ?computers. \<exists>d. computer = JDict d"
    by simp
  show ?thesis
    using is_already_registered_iff_display_name[OF s c j g d, of "''agent-7''"]
      is_already_registered_iff_display_name[OF s c j g d, of "''Agent-7''"]
    by auto
qed







text \<open>
  C7. When the delete request is answered with 302, the deregistration logs the success and
  returns normally; the delete request is the only request it has sent.
\<close>

theorem deregister_302_no_follow_up:
  assumes "get_credentialed_session credentials = Inr session"
    and "send e (requests w) (delete_request jenkins_url name session) = Inr delete_r"
    and "status_code delete_r = 302"
  shows "deregister_with_jenkins_master e jenkins_url name credentials w =
     (Inr (),
      w\<lparr>requests := requests w @ [delete_request jenkins_url name session],
        logged := logged w @
          [(INFO, ''De-registering worker '' @ fmt name @ '' from Jenkins '' @ jenkins_url),
           (INFO, ''Worker '' @ fmt name @ '' successfully de-registered from Jenkins ''
              @ jenkins_url)]\<rparr>)"
  using assms by (simp add: deregister_with_jenkins_master_def prog_defs)

theorem deregister_302_no_follow_up_witness:
  "deregister_with_jenkins_master deleted_env ''http://ci.example.com'' (Some ''agent-7'')
     (Some ''u:p'') world0 =
   (Inr (),
    \<lparr>requests = [delete_request ''http://ci.example.com'' (Some ''agent-7'') (''u'', ''p'')],
     logged =
       [(INFO, ''De-registering worker agent-7 from Jenkins http://ci.example.com''),
        (INFO, ''Worker agent-7 successfully de-registered from Jenkins http://ci.example.com'')],
     commands = []\<rparr>)"
proof -
  have s: "get_credentialed_session (Some ''u:p'') = Inr (''u'', ''p'')" by simp
  have d: "send deleted_env (requests world0)
      (delete_request ''http://ci.example.com'' (Some ''agent-7'') (''u'', ''p''))
      = Inr \<lparr>status_code = 302, content = ''''\<rparr>"
    by (simp add: deleted_env_def send_example_env answer_table_def delete_request_def)
  have c: "status_code \<lparr>status_code = 302, content = ''''\<rparr> = 302" by simp
  show ?thesis
    using deregister_302_no_follow_up[OF s d c] by (simp add: world0_def)
qed

text \<open>
  C8. When the agent document is fetched with status 200 and parses, but its root has no
  \<^verbatim>\<open>application-desc\<close> child that has an \<^verbatim>\<open>argument\<close> child, the secret extraction
  raises \<^verbatim>\<open>AttributeError\<close>; it returns no secret.
\<close>

theorem get_jnlp_secret_missing_path_raises:
  assumes "send e (requests w) (jnlp_request jenkins_url name session) = Inr response"
    and "status_code response = 200"
    and "decode_utf8 (content response) = Inr xml_content"
    and "fromstring e xml_content = Inr root"
    and "\<not> (\<exists>desc \<in> set (children root). tag desc = ''application-desc'' \<and>
              (\<exists>arg \<in> set (children desc). tag arg = ''argument''))"
  shows "fst (get_jnlp_secret e jenkins_url name session w) = Inl AttributeError"
proof -
  have "secret_of_root root = Inl AttributeError"
  proof (cases "find_child root ''application-desc''")
    case None
    then show ?thesis by (simp add: secret_of_root_def)
  next
    case (Some desc)
    then have "desc \<in> set (children root)" "tag desc = ''application-desc''"
      by (auto simp: find_child_def find_Some_iff)
    with assms(5) have "\<forall>arg \<in> set (children desc). tag arg \<noteq> ''argument''" by blast
    then have "find_child desc ''argument'' = None"
      by (auto simp: find_child_def find_None_iff)
    with Some show ?thesis by (simp add: secret_of_root_def)
  qed
  then show ?thesis
    using assms(1-4)
    by (simp add: get_jnlp_secret_def then_do_def ret_def lift_def logger_info_def http_def)
qed

theorem get_jnlp_secret_missing_path_raises_witness:
  "fst (get_jnlp_secret bare_jnlp_env ''http://ci.example.com'' (Some ''agent-7'') (''u'', ''p'')
          world0) = Inl AttributeError"
proof -
  let ?doc = "''<jnlp><application-desc/></jnlp>''"
  let ?root = "Element ''jnlp'' None [Element ''application-desc'' None []]"
  have s: "send bare_jnlp_env (requests world0)
      (jnlp_request ''http://ci.example.com'' (Some ''agent-7'') (''u'', ''p'')) = Inr (ok ?doc)"
    by (simp add: bare_jnlp_env_def send_example_env answer_table_def coordinator_answers_def
        jnlp_request_def jnlp_url_def)
  have c: "status_code (ok ?doc) = 200"
    by (simp add: ok_def)
  have u: "decode_utf8 (content (ok ?doc)) = Inr ?doc"
    by (simp add: ok_def decode_utf8_def)
  have x: "fromstring bare_jnlp_env ?doc = Inr ?root"
    by (simp add: bare_jnlp_env_def example_env_def parse_table_def example_xml_def)
  have n: "\<not> (\<exists>desc \<in> set (children ?root). tag desc = ''application-desc'' \<and>
              (\<exists>arg \<in> set (children desc). tag arg = ''argument''))"
    by simp
  show ?thesis
    using get_jnlp_secret_missing_path_raises[OF s c u x n] .
qed



text \<open>
  C10. The session is constructed exactly when the credential string has one colon, and the
  string is then the username, the colon and the password. With any other number of colons
  the construction raises \<^verbatim>\<open>ValueError\<close>: the deregistration has sent no request by then,
  and the start flow has sent only the requests of the metadata load; what the start flow
  has run by then is the \<^verbatim>\<open>wget\<close> download of the agent jar from the coordinator, when the
  jar was not on disk.
\<close>

theorem credentialed_session_iff_one_colon:
  "((\<exists>session. get_credentialed_session (Some credentials) = Inr session)
      = (count_list credentials (CHR '':'') = 1))
   \<and> (\<forall>username password.
         get_credentialed_session (Some credentials) = Inr (username, password)
         \<longrightarrow> credentials = username @ '':'' @ password)
   \<and> (count_list credentials (CHR '':'') \<noteq> 1 \<longrightarrow>
         get_credentialed_session (Some credentials) = Inl ValueError
       \<and> fst (deregister_with_jenkins_master e jenkins_url name (Some credentials) w)
           = Inl ValueError
       \<and> requests (snd (deregister_with_jenkins_master e jenkins_url name (Some credentials) w))
           = requests w
       \<and> (\<forall>data w1. load_instance_metadata e w = (Inr data, w1)
              \<and> data_jnlp_credentials data = Some credentials
            \<longrightarrow> fst (handle_start e w) = Inl ValueError
              \<and> requests (snd (handle_start e w)) = requests w1
              \<and> commands (snd (handle_start e w)) = commands w1 @
                    (if path_exists e JENKINS_AGENT_JAR_LOCAL_PATH then []
                     else [wget_command (data_jenkins_url data)])))"
proof -
  have len: "length (str_split credentials (CHR '':'')) = Suc (count_list credentials (CHR '':''))"
    by (rule length_str_split)
  then have iff: "(\<exists>session. get_credentialed_session (Some credentials) = Inr session)
      = (count_list credentials (CHR '':'') = 1)"
    by (auto split: list.splits)
  have parts: "\<forall>username password.
         get_credentialed_session (Some credentials) = Inr (username, password)
         \<longrightarrow> credentials = username @ '':'' @ password"
    by (auto split: list.splits dest: str_split_pair)
  have bad: "get_credentialed_session (Some credentials) = Inl ValueError"
    if "count_list credentials (CHR '':'') \<noteq> 1"
    using that len by (auto split: list.splits)
  have dereg: "deregister_with_jenkins_master e jenkins_url name (Some credentials) w
      = (Inl ValueError, w\<lparr>logged := logged w @
           [(INFO, ''De-registering worker '' @ fmt name @ '' from Jenkins '' @ jenkins_url)]\<rparr>)"
    if "count_list credentials (CHR '':'') \<noteq> 1"
    using bad[OF that] by (simp add: deregister_with_jenkins_master_def prog_defs)
  have start: "fst (handle_start e w) = Inl ValueError
              \<and> requests (snd (handle_start e w)) = requests w1
              \<and> commands (snd (handle_start e w)) = commands w1 @
                    (if path_exists e JENKINS_AGENT_JAR_LOCAL_PATH then []
                     else [wget_command (data_jenkins_url data)])"
    if "count_list credentials (CHR '':'') \<noteq> 1"
      and "load_instance_metadata e w = (Inr data, w1)"
      and "data_jnlp_credentials data = Some credentials" for data w1
  proof -
    obtain w2 where jar: "fetch_agent_jar e (data_jenkins_url data) w1 = (Inr (), w2)"
      and rq2: "requests w2 = requests w1"
      and cm2: "commands w2 = commands w1 @
          (if path_exists e JENKINS_AGENT_JAR_LOCAL_PATH then []
           else [wget_command (data_jenkins_url data)])"
      using fetch_agent_jar_result[of e "data_jenkins_url data" w1]
        fetch_agent_jar_commands[of e "data_jenkins_url data" w1]
      by (cases "fetch_agent_jar e (data_jenkins_url data) w1") auto
    show ?thesis
      using that(2,3) bad[OF that(1)] jar rq2 cm2
      by (simp add: handle_start_def then_do_def lift_def)
  qed
  show ?thesis
    using iff parts bad dereg start by simp
qed

theorem credentialed_session_iff_one_colon_witness:
  "get_credentialed_session (Some ''u:p'') = Inr (''u'', ''p'')
   \<and> get_credentialed_session (Some ''up'') = Inl ValueError
   \<and> get_credentialed_session (Some ''u:p:q'') = Inl ValueError
   \<and> fst (handle_shutdown (scenario_env ''u:p:q'' ''{\"computer\": []}'' True) world0)
       = Inl ValueError
   \<and> fst (handle_start (scenario_env ''u:p:q'' ''{\"computer\": []}'' True) world0)
       = Inl ValueError
   \<and> requests (snd (handle_start (scenario_env ''u:p:q'' ''{\"computer\": []}'' True) world0))
       = map metadata_request
           [''name'', ''attributes/JENKINS_URL'', ''attributes/JNLP_CREDENTIALS'',
            ''attributes/JENKINS_AGENT_LABEL'']"
proof -
  let ?e = "scenario_env ''u:p:q'' ''{\"computer\": []}'' True"
  let ?data = "\<lparr>data_jenkins_url = ''http://ci.example.com'', data_name = Some ''agent-7'',
          data_jnlp_credentials = Some ''u:p:q'', data_jenkins_label = Some ''linux''\<rparr>"
  obtain w1 where l: "load_instance_metadata ?e world0 = (Inr ?data, w1)"
    using scenario_load_two_colons[of "''{\"computer\": []}''" True world0] by (metis prod.collapse)
  have c: "count_list ''u:p:q'' (CHR '':'') \<noteq> 1" "count_list ''up'' (CHR '':'') \<noteq> 1"
    "count_list ''u:p'' (CHR '':'') = 1"
    by simp_all
  have rq: "requests w1 = map metadata_request
           [''name'', ''attributes/JENKINS_URL'', ''attributes/JNLP_CREDENTIALS'',
            ''attributes/JENKINS_AGENT_LABEL'']"
    using load_requests[OF l] by (simp add: world0_def)
  have sh: "fst (handle_shutdown ?e world0) =
      fst (deregister_with_jenkins_master ?e ''http://ci.example.com'' (Some ''agent-7'')
             (Some ''u:p:q'') w1)"
    using l by (simp add: handle_shutdown_def then_do_def)
  have st: "fst (handle_start ?e world0) = Inl ValueError
      \<and> requests (snd (handle_start ?e world0)) = requests w1"
    using credentialed_session_iff_one_colon[of "''u:p:q''" ?e "''http://ci.example.com''"
        "Some ''agent-7''" world0] c(1) l
    by simp
  show ?thesis
    using credentialed_session_iff_one_colon[of "''u:p:q''" ?e "''http://ci.example.com''"
        "Some ''agent-7''" w1]
      credentialed_session_iff_one_colon[of "''up''" ?e "''http://ci.example.com''"
        "Some ''agent-7''" w1]
      c sh st rq
    by simp
qed

text \<open>
  The start flow with a credential string of two colons and no agent jar on disk: the
  download from the coordinator has been run when \<^verbatim>\<open>ValueError\<close> is raised.
\<close>

theorem session_error_after_jar_download:
  "fst (handle_start (scenario_env ''u:p:q'' ''{\"computer\": []}'' False) world0) = Inl ValueError
   \<and> commands (snd (handle_start (scenario_env ''u:p:q'' ''{\"computer\": []}'' False) world0))
       = [''wget http://ci.example.com/jnlpJars/agent.jar -O /tmp/agent.jar'']"
proof -
  let ?e = "scenario_env ''u:p:q'' ''{\"computer\": []}'' False"
  have p: "\<not> path_exists ?e JENKINS_AGENT_JAR_LOCAL_PATH"
    by (simp add: scenario_env_def example_env_def)
  have l: "load_instance_metadata ?e world0 =
      (Inr \<lparr>data_jenkins_url = ''http://ci.example.com'', data_name = Some ''agent-7'',
            data_jnlp_credentials = Some ''u:p:q'', data_jenkins_label = Some ''linux''\<rparr>,
       \<lparr>requests = map metadata_request
           [''name'', ''attributes/JENKINS_URL'', ''attributes/JNLP_CREDENTIALS'',
            ''attributes/JENKINS_AGENT_LABEL''],
        logged = [(INFO, ''Retrieving GCE internal computeMetadata'')],
        commands = []\<rparr>)"
    by (simp add: load_instance_metadata_def load_instance_metadata_item_def prog_defs
        scenario_env_def example_defs world0_def)
  show ?thesis
    using p
    by (simp add: handle_start_def then_do_def lift_def l fetch_agent_jar_def logger_info_def
        os_system_def wget_command_def JENKINS_AGENT_JAR_PATH_def JENKINS_AGENT_JAR_LOCAL_PATH_def)
qed

end
